theory Spec2Isabelle
  imports Complex_Main "HOL-Library.Sublist"
begin

section \<open>Python values\<close>

text \<open>
  Exceptions are values.  Every constructor is a subclass of Python's \<open>Exception\<close>, so
  the \<open>except Exception\<close> clauses of the servers catch all of them.  \<open>OSError\<close> stands
  for what a file-system or process call raises (\<open>FileNotFoundError\<close>,
  \<open>PermissionError\<close>, ...); it carries the text that \<open>str(e)\<close> gives.
\<close>

datatype py_error =
    Exception string
  | KeyError string
  | ZeroDivisionError
  | AttributeError string
  | OSError string
  | HTTPException int string

text \<open>
  A Python \<open>str\<close> is a list of code points; every code point the servers put into a
  job record is below 256, so it is a \<open>char\<close>.  The accented letters are written by
  their code point.
\<close>

definition e_acute :: char where "e_acute = CHR 0xE9"
definition e_grave :: char where "e_grave = CHR 0xE8"
definition E_acute :: char where "E_acute = CHR 0xC9"
definition i_circ :: char where "i_circ = CHR 0xEE"
definition apostrophe :: char where "apostrophe = CHR 0x27"

text \<open>\<open>str(n)\<close> of an integer, as an f-string prints it.\<close>

definition digit_char :: "nat \<Rightarrow> char" where
  "digit_char d = char_of (48 + d)"

function str_nat :: "nat \<Rightarrow> string" where
  "str_nat n = (if n < 10 then [digit_char n] else str_nat (n div 10) @ [digit_char (n mod 10)])"
  by pat_completeness auto
termination
  by (relation "measure id") auto

definition str_int :: "int \<Rightarrow> string" where
  "str_int i = (if i < 0 then CHR ''-'' # str_nat (nat (- i)) else str_nat (nat i))"

text \<open>\<open>int(x)\<close> of a float truncates towards zero.  Floats are modelled by rationals.\<close>

definition py_int :: "rat \<Rightarrow> int" where
  "py_int x = (if 0 \<le> x then \<lfloor>x\<rfloor> else \<lceil>x\<rceil>)"

section \<open>Frame samplers\<close>

text \<open>
  What \<open>cv2.VideoCapture\<close> gives for an upload: the frame count and frame rate it
  reports, and the frames that successive \<open>cap.read()\<close> calls deliver before the first
  \<open>ret = False\<close>.
\<close>

record 'f video =
  total_frames :: int
  video_fps :: rat
  frames :: "'f list"

subsection \<open>\<open>main.py\<close>: a target number of frames\<close>

text \<open>
  The \<open>while True\<close> loop of \<open>extract_frames_from_video\<close>.  The list is what is left to
  read; \<open>out\<close> is the files written so far, each the ordinal in its name
  \<open>frame_%04d.jpg\<close> and the frame stored in it.
\<close>

fun sample_loop :: "int \<Rightarrow> int \<Rightarrow> 'f list \<Rightarrow> nat \<Rightarrow> nat \<Rightarrow> (nat \<times> 'f) list
    \<Rightarrow> nat \<times> (nat \<times> 'f) list" where
  "sample_loop interval target_frames [] frame_count extracted_count out = (extracted_count, out)"
| "sample_loop interval target_frames (frame # rest) frame_count extracted_count out =
     (if int frame_count mod interval = 0 then
        (if int (extracted_count + 1) \<ge> target_frames
         then (extracted_count + 1, out @ [(extracted_count, frame)])
         else sample_loop interval target_frames rest (frame_count + 1) (extracted_count + 1)
                (out @ [(extracted_count, frame)]))
      else sample_loop interval target_frames rest (frame_count + 1) extracted_count out)"

definition extract_frames_from_video :: "'f video \<Rightarrow> int \<Rightarrow> py_error + nat \<times> (nat \<times> 'f) list" where
  "extract_frames_from_video v target_frames =
     (if target_frames = 0 then Inl ZeroDivisionError
      else let interval = max 1 (total_frames v div target_frames)
           in Inr (sample_loop interval target_frames (frames v) 0 0 []))"

subsection \<open>\<open>main_colmap.py\<close> and \<open>main_gaussian_splatting.py\<close>: a target frame rate\<close>

text \<open>
  Both files share the loop; \<open>frame_count % frame_interval\<close> raises when the interval
  is zero.  The files are named by \<open>saved_count\<close>.
\<close>

fun fps_loop :: "int \<Rightarrow> 'f list \<Rightarrow> nat \<Rightarrow> nat \<Rightarrow> (nat \<times> 'f) list
    \<Rightarrow> py_error + nat \<times> (nat \<times> 'f) list" where
  "fps_loop frame_interval [] frame_count saved_count out = Inr (saved_count, out)"
| "fps_loop frame_interval (frame # rest) frame_count saved_count out =
     (if frame_interval = 0 then Inl ZeroDivisionError
      else if int frame_count mod frame_interval = 0
      then fps_loop frame_interval rest (frame_count + 1) (saved_count + 1)
             (out @ [(saved_count, frame)])
      else fps_loop frame_interval rest (frame_count + 1) saved_count out)"

definition extract_frames_from_video_colmap :: "'f video \<Rightarrow> int \<Rightarrow> py_error + nat \<times> (nat \<times> 'f) list" where
  "extract_frames_from_video_colmap v fps =
     (if fps = 0 then Inl ZeroDivisionError
      else fps_loop (max 1 (py_int (video_fps v / of_int fps))) (frames v) 0 0 [])"

definition extract_frames_from_video_gaussian_splatting :: "'f video \<Rightarrow> int \<Rightarrow> py_error + nat \<times> (nat \<times> 'f) list" where
  "extract_frames_from_video_gaussian_splatting v fps =
     (if fps = 0 then Inl ZeroDivisionError
      else fps_loop (py_int (video_fps v / of_int fps)) (frames v) 0 0 [])"


section \<open>Job records and the world the servers act on\<close>

text \<open>
  The \<open>status\<close> field holds one of the four strings \<open>"queued"\<close>, \<open>"processing"\<close>,
  \<open>"completed"\<close>, \<open>"failed"\<close>.
\<close>

datatype status = Queued | Processing | Completed | Failed

record job =
  job_id :: string
  status :: status
  message :: string
  progress :: int
  created_at :: string
  download_url :: "string option"
  error :: "string option"

text \<open>
  Where a background task handed to \<open>BackgroundTasks.add_task\<close> stands: not yet started,
  suspended on \<open>ns-process-data\<close>, suspended in the training loop (with the number of turns
  that will still find the process alive and the value of the local variable \<open>progress\<close>),
  suspended on \<open>ns-export\<close>, or ended.
\<close>

datatype task = Scheduled | Suspended | Training nat int | Exporting | Ended

text \<open>
  The module state and the directories: the dictionary \<open>jobs_status\<close>, the files of
  \<open>UPLOAD_DIR\<close> (name to bytes), the listing of \<open>OUTPUT_DIR\<close> in the order \<open>glob\<close>
  enumerates it, and the job directories present under \<open>JOBS_DIR\<close>.  Three fields observe
  a run: the tasks added so far, the external commands started, and the value of a job
  record after each store into it.
\<close>

record world =
  jobs_status :: "string \<rightharpoonup> job"
  upload_dir :: "string \<rightharpoonup> string"
  output_dir :: "(string \<times> string) list"
  jobs_dir :: "string set"
  tasks :: "string \<rightharpoonup> task"
  launched :: "string list list"
  history :: "job list"

text \<open>A run of statements ends normally or by an exception; the stores made before the
  exception stay.\<close>

datatype outcome = Normal world | Raised py_error world

fun run_steps :: "(world \<Rightarrow> outcome) list \<Rightarrow> world \<Rightarrow> outcome" where
  "run_steps [] w = Normal w"
| "run_steps (stmt # rest) w =
     (case stmt w of Normal w' \<Rightarrow> run_steps rest w' | Raised e w' \<Rightarrow> Raised e w')"

fun world_of :: "outcome \<Rightarrow> world" where
  "world_of (Normal w) = w"
| "world_of (Raised e w) = w"

text \<open>\<open>jobs_status[job_id][field] = value\<close>: a \<open>KeyError\<close> when the record is gone.\<close>

definition store :: "string \<Rightarrow> (job \<Rightarrow> job) \<Rightarrow> world \<Rightarrow> outcome" where
  "store jid upd w =
     (case jobs_status w jid of
        None \<Rightarrow> Raised (KeyError jid) w
      | Some j \<Rightarrow> Normal (w\<lparr>jobs_status := (jobs_status w)(jid \<mapsto> upd j),
                             history := history w @ [upd j]\<rparr>))"

definition raise_if :: "bool \<Rightarrow> py_error \<Rightarrow> world \<Rightarrow> outcome" where
  "raise_if c e w = (if c then Raised e w else Normal w)"

text \<open>\<open>str(e)\<close>.  A \<open>KeyError\<close> prints the \<open>repr\<close> of its key; Starlette's
  \<open>HTTPException\<close> prints its status code and detail.\<close>

fun str_error :: "py_error \<Rightarrow> string" where
  "str_error (Exception m) = m"
| "str_error (KeyError k) = apostrophe # k @ [apostrophe]"
| "str_error ZeroDivisionError = ''division by zero''"
| "str_error (AttributeError m) = m"
| "str_error (OSError m) = m"
| "str_error (HTTPException code detail) = str_int code @ '': '' @ detail"

subsection \<open>Files\<close>

definition file_exists :: "string \<Rightarrow> (string \<times> string) list \<Rightarrow> bool" where
  "file_exists name listing = (map_of listing name \<noteq> None)"

definition remove_file :: "string \<Rightarrow> (string \<times> string) list \<Rightarrow> (string \<times> string) list" where
  "remove_file name listing = filter (\<lambda>entry. fst entry \<noteq> name) listing"

text \<open>Writing a file replaces an entry of the same name.\<close>

definition write_file :: "string \<Rightarrow> string \<Rightarrow> (string \<times> string) list \<Rightarrow> (string \<times> string) list" where
  "write_file name bytes listing = remove_file name listing @ [(name, bytes)]"

definition write_files :: "(string \<times> string) list \<Rightarrow> (string \<times> string) list \<Rightarrow> (string \<times> string) list" where
  "write_files files listing = foldl (\<lambda>l entry. write_file (fst entry) (snd entry) l) listing files"

text \<open>\<open>shutil.move(src, dst)\<close> onto a file path: a rename that replaces \<open>dst\<close>.\<close>

definition move_file :: "string \<Rightarrow> string \<Rightarrow> (string \<times> string) list \<Rightarrow> (string \<times> string) list" where
  "move_file src dst listing =
     (case map_of listing src of
        None \<Rightarrow> listing
      | Some bytes \<Rightarrow> remove_file dst (remove_file src listing) @ [(dst, bytes)])"

text \<open>\<open>OUTPUT_DIR.glob(f"{job_id}*.ply")\<close>: the names that start with the job
  identifier and go on to end in \<open>.ply\<close>, in listing order.\<close>

definition glob_ply :: "string \<Rightarrow> (string \<times> string) list \<Rightarrow> string list" where
  "glob_ply jid listing =
     filter (\<lambda>name. prefix jid name \<and> suffix ''.ply'' (drop (length jid) name)) (map fst listing)"

definition final_ply :: "string \<Rightarrow> string" where
  "final_ply jid = jid @ ''.ply''"

definition video_path :: "string \<Rightarrow> string" where
  "video_path jid = jid @ ''.mp4''"

section \<open>\<open>main.py\<close>: the Nerfstudio pipeline\<close>

text \<open>
  What the outside does during one run of \<open>process_3d_generation\<close>: the decoded upload,
  for each external tool whether starting it raises and otherwise its return code and
  standard error, how often the training loop finds the process still alive, the
  checkpoints the training left, the files the export leaves in \<open>OUTPUT_DIR\<close>, and
  whether a directory creation, the move or the unlink raises.
\<close>

record proc =
  spawn_error :: "string option"
  returncode :: int
  stderr :: string

record 'f env =
  capture :: "'f video"
  mkdir_error :: "string option"
  colmap :: proc
  train :: proc
  train_polls :: nat
  checkpoints :: "string list"
  export :: proc
  exported :: "(string \<times> string) list"
  move_error :: "string option"
  unlink_error :: "string option"

definition mkdirs :: "string option \<Rightarrow> string \<Rightarrow> world \<Rightarrow> outcome" where
  "mkdirs err jid w =
     (case err of
        Some m \<Rightarrow> Raised (OSError m) w
      | None \<Rightarrow> Normal (w\<lparr>jobs_dir := insert jid (jobs_dir w)\<rparr>))"

text \<open>\<open>asyncio.create_subprocess_exec\<close> or \<open>subprocess.run\<close> starting a command.\<close>

definition launch :: "proc \<Rightarrow> string list \<Rightarrow> world \<Rightarrow> outcome" where
  "launch p cmd w =
     (case spawn_error p of
        Some m \<Rightarrow> Raised (OSError m) w
      | None \<Rightarrow> Normal (w\<lparr>launched := launched w @ [cmd]\<rparr>))"

text \<open>\<open>error_msg = stderr.decode() if stderr else default\<close>, raised when the return
  code is not zero.\<close>

definition check_returncode :: "proc \<Rightarrow> string \<Rightarrow> string \<Rightarrow> world \<Rightarrow> outcome" where
  "check_returncode p what fallback w =
     raise_if (returncode p \<noteq> 0)
       (Exception (what @ (if stderr p \<noteq> [] then stderr p else fallback))) w"

definition num_frames :: "'f env \<Rightarrow> py_error + nat" where
  "num_frames env = map_sum id fst (extract_frames_from_video (capture env) 50)"

definition too_few_frames :: "nat \<Rightarrow> string" where
  "too_few_frames n =
     ''Pas assez de frames extraites ('' @ str_nat n @ ''). Vid'' @ [e_acute] @ ''o trop courte?''"

definition check_frames :: "py_error + nat \<Rightarrow> (nat \<Rightarrow> string) \<Rightarrow> world \<Rightarrow> outcome" where
  "check_frames n msg w =
     (case n of
        Inl e \<Rightarrow> Raised e w
      | Inr k \<Rightarrow> raise_if (k < 10) (Exception (msg k)) w)"

definition colmap_cmd :: "string \<Rightarrow> py_error + nat \<Rightarrow> string list" where
  "colmap_cmd jid n =
     [''ns-process-data'', ''video'', ''--data'', ''jobs/'' @ jid @ ''/images'',
      ''--output-dir'', ''jobs/'' @ jid @ ''/colmap'',
      ''--num-frames-target'', (case n of Inr k \<Rightarrow> str_nat k | Inl e \<Rightarrow> [])]"

definition train_cmd :: "string \<Rightarrow> string list" where
  "train_cmd jid =
     [''ns-train'', ''instant-ngp'', ''--data'', ''jobs/'' @ jid @ ''/colmap'',
      ''--output-dir'', ''jobs/'' @ jid @ ''/output'', ''--max-num-iterations'', ''10000'',
      ''--pipeline.model.predict-normals'', ''True'', ''--vis'', ''viewer+tensorboard'']"

definition export_cmd :: "string \<Rightarrow> string list" where
  "export_cmd jid =
     [''ns-export'', ''pointcloud'', ''--load-config'',
      ''jobs/'' @ jid @ ''/output/instant-ngp/nerfstudio_models/config.yml'',
      ''--output-dir'', ''outputs'', ''--num-points'', ''1000000'',
      ''--remove-outliers'', ''True'', ''--normal-method'', ''model_output'']"

text \<open>Lines 107 to 142: from the start of the task to its first suspension, waiting for
  \<open>ns-process-data\<close>.\<close>

definition process_start :: "'f env \<Rightarrow> string \<Rightarrow> world \<Rightarrow> outcome" where
  "process_start env jid =
     run_steps
       [store jid (\<lambda>j. j\<lparr>status := Processing\<rparr>),
        store jid (\<lambda>j. j\<lparr>message := ''Extraction des frames...''\<rparr>),
        store jid (\<lambda>j. j\<lparr>progress := 10\<rparr>),
        mkdirs (mkdir_error env) jid,
        check_frames (num_frames env) too_few_frames,
        store jid (\<lambda>j. j\<lparr>progress := 20\<rparr>),
        store jid (\<lambda>j. j\<lparr>message := ''Traitement COLMAP (structure from motion)...''\<rparr>),
        launch (colmap env) (colmap_cmd jid (num_frames env))]"

text \<open>Lines 144 to 170.\<close>

definition colmap_done :: "'f env \<Rightarrow> string \<Rightarrow> world \<Rightarrow> outcome" where
  "colmap_done env jid =
     run_steps
       [check_returncode (colmap env) ''COLMAP processing failed: '' ''COLMAP failed'',
        store jid (\<lambda>j. j\<lparr>progress := 40\<rparr>),
        store jid (\<lambda>j. j\<lparr>message := ''Entra'' @ [i_circ] @ ''nement du mod'' @ [e_grave]
                                        @ ''le NeRF (Instant-NGP)...''\<rparr>),
        launch (train env) (train_cmd jid)]"

text \<open>Lines 173 to 182: one equation per turn of
  \<open>while process.returncode is None\<close>; the first argument counts the turns the process
  is still found alive, \<open>prog\<close> is the local variable \<open>progress\<close>.\<close>

fun training_loop :: "nat \<Rightarrow> int \<Rightarrow> string \<Rightarrow> world \<Rightarrow> outcome" where
  "training_loop 0 prog jid w = Normal w"
| "training_loop (Suc n) prog jid w =
     (case store jid (\<lambda>j. j\<lparr>progress := min (prog + 5) 85\<rparr>) w of
        Normal w' \<Rightarrow> training_loop n (min (prog + 5) 85) jid w'
      | Raised e w' \<Rightarrow> Raised e w')"

text \<open>Lines 184 to 219.\<close>

definition training_done :: "'f env \<Rightarrow> string \<Rightarrow> world \<Rightarrow> outcome" where
  "training_done env jid =
     run_steps
       [check_returncode (train env) ''NeRF training failed: '' ''Training failed'',
        store jid (\<lambda>j. j\<lparr>progress := 90\<rparr>),
        store jid (\<lambda>j. j\<lparr>message := ''Export du mod'' @ [e_grave] @ ''le 3D...''\<rparr>),
        raise_if (checkpoints env = [])
          (Exception (''Aucun checkpoint trouv'' @ [e_acute] @ '' apr'' @ [e_grave] @ ''s l''
                      @ [apostrophe] @ ''entra'' @ [i_circ] @ ''nement'')),
        launch (export env) (export_cmd jid)]"

text \<open>Lines 228 to 238: the first file the glob lists is taken.\<close>

definition ply_not_found :: string where
  "ply_not_found = ''Fichier PLY non trouv'' @ [e_acute] @ '' apr'' @ [e_grave] @ ''s l''
                   @ [apostrophe] @ ''export''"

definition resolve_artifact :: "'f env \<Rightarrow> string \<Rightarrow> world \<Rightarrow> outcome" where
  "resolve_artifact env jid w =
     (case glob_ply jid (output_dir w) of
        [] \<Rightarrow> Raised (Exception ply_not_found) w
      | ply_file # others \<Rightarrow>
          if ply_file \<noteq> final_ply jid then
            (case move_error env of
               Some m \<Rightarrow> Raised (OSError m) w
             | None \<Rightarrow> Normal (w\<lparr>output_dir := move_file ply_file (final_ply jid) (output_dir w)\<rparr>))
          else Normal w)"

text \<open>Lines 249 to 251.\<close>

definition cleanup :: "'f env \<Rightarrow> string \<Rightarrow> world \<Rightarrow> outcome" where
  "cleanup env jid w =
     (let w' = w\<lparr>jobs_dir := jobs_dir w - {jid}\<rparr> in
      if upload_dir w' (video_path jid) \<noteq> None then
        (case unlink_error env of
           Some m \<Rightarrow> Raised (OSError m) w'
         | None \<Rightarrow> Normal (w'\<lparr>upload_dir := (upload_dir w')(video_path jid := None)\<rparr>))
      else Normal w')"

text \<open>Lines 221 to 251.\<close>

definition export_done :: "'f env \<Rightarrow> string \<Rightarrow> world \<Rightarrow> outcome" where
  "export_done env jid =
     run_steps
       [(\<lambda>w. Normal (w\<lparr>output_dir := write_files (exported env) (output_dir w)\<rparr>)),
        check_returncode (export env) ''PLY export failed: '' ''Export failed'',
        resolve_artifact env jid,
        store jid (\<lambda>j. j\<lparr>status := Completed\<rparr>),
        store jid (\<lambda>j. j\<lparr>progress := 100\<rparr>),
        store jid (\<lambda>j. j\<lparr>message := ''Mod'' @ [e_grave] @ ''le 3D g'' @ [e_acute] @ ''n''
                                        @ [e_acute] @ ''r'' @ [e_acute] @ '' avec succ''
                                        @ [e_grave] @ ''s''\<rparr>),
        store jid (\<lambda>j. j\<lparr>download_url := Some (''/download/'' @ jid @ ''.ply'')\<rparr>),
        cleanup env jid]"

text \<open>Lines 253 to 258: \<open>except Exception as e\<close>.\<close>

definition on_exception :: "string \<Rightarrow> outcome \<Rightarrow> outcome" where
  "on_exception jid r =
     (case r of
        Normal w \<Rightarrow> Normal w
      | Raised e w \<Rightarrow>
          run_steps
            [store jid (\<lambda>j. j\<lparr>status := Failed\<rparr>),
             store jid (\<lambda>j. j\<lparr>message := [E_acute] @ ''chec de la g'' @ [e_acute] @ ''n''
                                             @ [e_acute] @ ''ration''\<rparr>),
             store jid (\<lambda>j. j\<lparr>error := Some (str_error e)\<rparr>),
             store jid (\<lambda>j. j\<lparr>progress := 0\<rparr>)] w)"

text \<open>What follows the first suspension, up to the end of the \<open>try\<close> block.\<close>

definition process_rest :: "'f env \<Rightarrow> string \<Rightarrow> world \<Rightarrow> outcome" where
  "process_rest env jid =
     run_steps
       [colmap_done env jid,
        training_loop (train_polls env) 40 jid,
        training_done env jid,
        export_done env jid]"

definition process_3d_generation :: "'f env \<Rightarrow> string \<Rightarrow> world \<Rightarrow> outcome" where
  "process_3d_generation env jid w =
     on_exception jid (run_steps [process_start env jid, process_rest env jid] w)"

subsection \<open>The endpoints of \<open>main.py\<close>\<close>

record upload =
  content_type :: "string option"
  content :: string

definition new_job :: "string \<Rightarrow> string \<Rightarrow> string \<Rightarrow> job" where
  "new_job jid msg now =
     \<lparr>job_id = jid, status = Queued, message = msg, progress = 0, created_at = now,
      download_url = None, error = None\<rparr>"

text \<open>The \<open>try\<close> block of \<open>generate_3d\<close>.  \<open>uuid4\<close> is the identifier that
  \<open>uuid.uuid4()\<close> draws and \<open>now\<close> the time stamp; a missing content type makes
  \<open>startswith\<close> raise.\<close>

definition generate_3d_try :: "upload \<Rightarrow> string \<Rightarrow> string \<Rightarrow> world \<Rightarrow> (py_error + string) \<times> world" where
  "generate_3d_try file uuid4 now w =
     (case content_type file of
        None \<Rightarrow>
          (Inl (AttributeError ([apostrophe] @ ''NoneType'' @ [apostrophe]
                  @ '' object has no attribute '' @ [apostrophe] @ ''startswith''
                  @ [apostrophe])), w)
      | Some ct \<Rightarrow>
          if \<not> prefix ''video/'' ct
          then (Inl (HTTPException 400 (''Le fichier doit '' @ [CHR 0xEA] @ ''tre une vid''
                       @ [e_acute] @ ''o'')), w)
          else (Inr uuid4,
                w\<lparr>upload_dir := (upload_dir w)(video_path uuid4 \<mapsto> content file),
                  jobs_status := (jobs_status w)
                    (uuid4 \<mapsto> new_job uuid4 (''En attente de traitement...'') now),
                  tasks := (tasks w)(uuid4 \<mapsto> Scheduled)\<rparr>))"

text \<open>\<open>except Exception as e: raise HTTPException(500, ...)\<close> also catches the
  \<open>HTTPException(400)\<close> raised inside the \<open>try\<close>.\<close>

definition generate_3d :: "upload \<Rightarrow> string \<Rightarrow> string \<Rightarrow> world \<Rightarrow> (py_error + string) \<times> world" where
  "generate_3d file uuid4 now w =
     (case generate_3d_try file uuid4 now w of
        (Inl e, w') \<Rightarrow>
          (Inl (HTTPException 500 (''Erreur lors de l'' @ [apostrophe] @ ''upload: ''
                  @ str_error e)), w')
      | (Inr r, w') \<Rightarrow> (Inr r, w'))"

definition job_not_found :: py_error where
  "job_not_found = HTTPException 404 (''Job non trouv'' @ [e_acute])"


definition get_job_status :: "string \<Rightarrow> world \<Rightarrow> py_error + job" where
  "get_job_status jid w =
     (case jobs_status w jid of None \<Rightarrow> Inl job_not_found | Some j \<Rightarrow> Inr j)"


definition delete_job :: "string \<Rightarrow> world \<Rightarrow> (py_error + unit) \<times> world" where
  "delete_job jid w =
     (if jid \<in> dom (jobs_status w) then
        (Inr (),
         w\<lparr>output_dir := (if file_exists (final_ply jid) (output_dir w)
                           then remove_file (final_ply jid) (output_dir w)
                           else output_dir w),
           jobs_status := (jobs_status w)(jid := None)\<rparr>)
      else (Inl job_not_found, w))"

section \<open>\<open>main_colmap.py\<close>: the COLMAP pipeline\<close>

record 'f colmap_env =
  colmap_capture :: "'f video"
  colmap_mkdir_error :: "string option"
  feature_extractor :: proc
  exhaustive_matcher :: proc
  mapper :: proc
  model_generated :: bool
  model_converter :: proc
  converted :: "string option"
  colmap_unlink_error :: "string option"

definition num_frames_colmap :: "'f colmap_env \<Rightarrow> py_error + nat" where
  "num_frames_colmap env = map_sum id fst (extract_frames_from_video_colmap (colmap_capture env) 3)"

definition too_few_frames_colmap :: "nat \<Rightarrow> string" where
  "too_few_frames_colmap n =
     ''Pas assez de frames: '' @ str_nat n @ ''. Vid'' @ [e_acute]
     @ ''o trop courte (minimum 5 secondes)''"

definition feature_cmd :: "string \<Rightarrow> string list" where
  "feature_cmd jid =
     [''colmap'', ''feature_extractor'', ''--database_path'', ''jobs/'' @ jid @ ''/database.db'',
      ''--image_path'', ''jobs/'' @ jid @ ''/images'', ''--ImageReader.single_camera'', ''1'',
      ''--ImageReader.camera_model'', ''SIMPLE_RADIAL'']"

definition matching_cmd :: "string \<Rightarrow> string list" where
  "matching_cmd jid =
     [''colmap'', ''exhaustive_matcher'', ''--database_path'', ''jobs/'' @ jid @ ''/database.db'']"

definition mapper_cmd :: "string \<Rightarrow> string list" where
  "mapper_cmd jid =
     [''colmap'', ''mapper'', ''--database_path'', ''jobs/'' @ jid @ ''/database.db'',
      ''--image_path'', ''jobs/'' @ jid @ ''/images'',
      ''--output_path'', ''jobs/'' @ jid @ ''/sparse'']"

definition converter_cmd :: "string \<Rightarrow> string list" where
  "converter_cmd jid =
     [''colmap'', ''model_converter'', ''--input_path'', ''jobs/'' @ jid @ ''/sparse/0'',
      ''--output_path'', ''outputs/'' @ final_ply jid, ''--output_type'', ''PLY'']"

text \<open>The converter writes \<open>outputs/{job_id}.ply\<close> when it writes anything.\<close>

definition write_converted :: "string option \<Rightarrow> string \<Rightarrow> world \<Rightarrow> outcome" where
  "write_converted out jid w =
     (case out of
        None \<Rightarrow> Normal w
      | Some bytes \<Rightarrow>
          Normal (w\<lparr>output_dir := write_file (final_ply jid) bytes (output_dir w)\<rparr>))"

text \<open>\<open>video_path.unlink(missing_ok=True)\<close>, then
  \<open>shutil.rmtree(job_dir, ignore_errors=True)\<close>.\<close>

definition cleanup_colmap :: "'f colmap_env \<Rightarrow> string \<Rightarrow> world \<Rightarrow> outcome" where
  "cleanup_colmap env jid w =
     (if upload_dir w (video_path jid) \<noteq> None then
        (case colmap_unlink_error env of
           Some m \<Rightarrow> Raised (OSError m) w
         | None \<Rightarrow> Normal (w\<lparr>upload_dir := (upload_dir w)(video_path jid := None),
                               jobs_dir := jobs_dir w - {jid}\<rparr>))
      else Normal (w\<lparr>jobs_dir := jobs_dir w - {jid}\<rparr>))"

definition on_exception_colmap :: "string \<Rightarrow> outcome \<Rightarrow> outcome" where
  "on_exception_colmap jid r =
     (case r of
        Normal w \<Rightarrow> Normal w
      | Raised e w \<Rightarrow>
          run_steps
            [store jid (\<lambda>j. j\<lparr>status := Failed\<rparr>),
             store jid (\<lambda>j. j\<lparr>message := ''Erreur: '' @ str_error e\<rparr>),
             store jid (\<lambda>j. j\<lparr>error := Some (str_error e)\<rparr>)] w)"

definition process_colmap :: "'f colmap_env \<Rightarrow> string \<Rightarrow> world \<Rightarrow> outcome" where
  "process_colmap env jid w =
     on_exception_colmap jid (run_steps
       [store jid (\<lambda>j. j\<lparr>status := Processing\<rparr>),
        store jid (\<lambda>j. j\<lparr>message := ''Extraction des frames...''\<rparr>),
        store jid (\<lambda>j. j\<lparr>progress := 10\<rparr>),
        mkdirs (colmap_mkdir_error env) jid,
        check_frames (num_frames_colmap env) too_few_frames_colmap,
        store jid (\<lambda>j. j\<lparr>progress := 20\<rparr>),
        store jid (\<lambda>j. j\<lparr>message := ''COLMAP: Feature extraction...''\<rparr>),
        launch (feature_extractor env) (feature_cmd jid),
        check_returncode (feature_extractor env) ''Feature extraction failed: '' [],
        store jid (\<lambda>j. j\<lparr>progress := 40\<rparr>),
        store jid (\<lambda>j. j\<lparr>message := ''COLMAP: Feature matching...''\<rparr>),
        launch (exhaustive_matcher env) (matching_cmd jid),
        check_returncode (exhaustive_matcher env) ''Feature matching failed: '' [],
        store jid (\<lambda>j. j\<lparr>progress := 60\<rparr>),
        store jid (\<lambda>j. j\<lparr>message := ''COLMAP: Reconstruction 3D...''\<rparr>),
        launch (mapper env) (mapper_cmd jid),
        check_returncode (mapper env) ''Mapper failed: '' [],
        store jid (\<lambda>j. j\<lparr>progress := 80\<rparr>),
        store jid (\<lambda>j. j\<lparr>message := ''Export du mod'' @ [e_grave] @ ''le 3D...''\<rparr>),
        raise_if (\<not> model_generated env) (Exception ''Reconstruction failed: no model generated''),
        launch (model_converter env) (converter_cmd jid),
        write_converted (converted env) jid,
        check_returncode (model_converter env) ''Export failed: '' [],
        cleanup_colmap env jid,
        store jid (\<lambda>j. j\<lparr>status := Completed\<rparr>),
        store jid (\<lambda>j. j\<lparr>message := ''Mod'' @ [e_grave] @ ''le 3D g'' @ [e_acute] @ ''n''
                                        @ [e_acute] @ ''r'' @ [e_acute] @ '' !''\<rparr>),
        store jid (\<lambda>j. j\<lparr>progress := 100\<rparr>),
        store jid (\<lambda>j. j\<lparr>download_url := Some (''/download/'' @ jid @ ''.ply'')\<rparr>)] w)"

text \<open>\<open>generate_3d\<close> of \<open>main_colmap.py\<close> has no \<open>try\<close> and reads no content type.\<close>

definition generate_3d_colmap :: "upload \<Rightarrow> string \<Rightarrow> string \<Rightarrow> world \<Rightarrow> (py_error + string) \<times> world" where
  "generate_3d_colmap video uuid4 now w =
     (Inr uuid4,
      w\<lparr>upload_dir := (upload_dir w)(video_path uuid4 \<mapsto> content video),
        jobs_status := (jobs_status w)(uuid4 \<mapsto> new_job uuid4 ''En attente...'' now),
        tasks := (tasks w)(uuid4 \<mapsto> Scheduled)\<rparr>)"

definition delete_job_colmap :: "string \<Rightarrow> world \<Rightarrow> (py_error + unit) \<times> world" where
  "delete_job_colmap jid w =
     (if jid \<in> dom (jobs_status w) then
        (Inr (),
         w\<lparr>output_dir := remove_file (final_ply jid) (output_dir w),
           jobs_dir := jobs_dir w - {jid},
           jobs_status := (jobs_status w)(jid := None)\<rparr>)
      else (Inl job_not_found, w))"

section \<open>The server of \<open>main.py\<close> as a whole\<close>

text \<open>\<open>Config.MAX_CONCURRENT_JOBS\<close> of \<open>config.py\<close>, at its default.\<close>

definition MAX_CONCURRENT_JOBS :: nat where
  "MAX_CONCURRENT_JOBS = 2"

text \<open>
  The event loop runs one piece of code at a time and changes task only where a task
  awaits.  A request is one event, and so is each run of a task from one \<open>await\<close> to the
  next one that has code between: from its start to the wait for \<open>ns-process-data\<close>
  (lines 107 to 142), from there to the first sleep of the training loop (144 to 175), one
  turn of the loop (176 to 180), from the end of the training to the wait for
  \<open>ns-export\<close> (184 to 219), and from there to the end (221 to 251).  An exception ends the
  task through the handler, which has no \<open>await\<close>.
\<close>

definition finish :: "string \<Rightarrow> task \<Rightarrow> outcome \<Rightarrow> world" where
  "finish jid next r =
     (case r of
        Normal w' \<Rightarrow> w'\<lparr>tasks := (tasks w')(jid \<mapsto> next)\<rparr>
      | Raised e w' \<Rightarrow>
          (let w'' = world_of (on_exception jid (Raised e w'))
           in w''\<lparr>tasks := (tasks w'')(jid \<mapsto> Ended)\<rparr>))"

datatype event =
    Submit upload string string
  | Start string
  | Resume string
  | Delete string

fun step :: "(string \<Rightarrow> 'f env) \<Rightarrow> event \<Rightarrow> world \<Rightarrow> world" where
  "step envs (Submit file uuid4 now) w = snd (generate_3d file uuid4 now w)"
| "step envs (Start jid) w =
     (if tasks w jid = Some Scheduled then
        (case process_start (envs jid) jid w of
           Normal w' \<Rightarrow> w'\<lparr>tasks := (tasks w')(jid \<mapsto> Suspended)\<rparr>
         | Raised e w' \<Rightarrow>
             (let w'' = world_of (on_exception jid (Raised e w'))
              in w''\<lparr>tasks := (tasks w'')(jid \<mapsto> Ended)\<rparr>))
      else w)"
| "step envs (Resume jid) w =
     (case tasks w jid of
        Some Suspended \<Rightarrow>
          finish jid (Training (train_polls (envs jid)) 40) (colmap_done (envs jid) jid w)
      | Some (Training (Suc n) prog) \<Rightarrow>
          finish jid (Training n (min (prog + 5) 85)) (training_loop 1 prog jid w)
      | Some (Training 0 prog) \<Rightarrow>
          finish jid Exporting (training_done (envs jid) jid w)
      | Some Exporting \<Rightarrow>
          finish jid Ended (export_done (envs jid) jid w)
      | _ \<Rightarrow> w)"
| "step envs (Delete jid) w = snd (delete_job jid w)"

fun run_events :: "(string \<Rightarrow> 'f env) \<Rightarrow> event list \<Rightarrow> world \<Rightarrow> world" where
  "run_events envs [] w = w"
| "run_events envs (ev # evs) w = run_events envs evs (step envs ev w)"

definition is_processing :: "world \<Rightarrow> string \<Rightarrow> bool" where
  "is_processing w jid =
     (case jobs_status w jid of None \<Rightarrow> False | Some j \<Rightarrow> status j = Processing)"

definition empty_world :: world where
  "empty_world =
     \<lparr>jobs_status = Map.empty, upload_dir = Map.empty, output_dir = [], jobs_dir = {},
      tasks = Map.empty, launched = [], history = []\<rparr>"

section \<open>Observing a run\<close>

text \<open>The values a job record took during a run: what the run appended to the
  history.\<close>

definition written :: "world \<Rightarrow> outcome \<Rightarrow> job list" where
  "written w r = drop (length (history w)) (history (world_of r))"

text \<open>The values the training loop stores from \<open>progress = p\<close> in \<open>n\<close> turns, and the
  value of the local variable after them.\<close>

fun ramp :: "int \<Rightarrow> nat \<Rightarrow> int list" where
  "ramp p 0 = []"
| "ramp p (Suc n) = min (p + 5) 85 # ramp (min (p + 5) 85) n"

fun ramp_end :: "int \<Rightarrow> nat \<Rightarrow> int \<Rightarrow> int" where
  "ramp_end p 0 p0 = p0"
| "ramp_end p (Suc n) p0 = ramp_end (min (p + 5) 85) n (min (p + 5) 85)"

subsection \<open>A sample submission and its surroundings\<close>

definition sample_proc :: proc where
  "sample_proc = \<lparr>spawn_error = None, returncode = 0, stderr = []\<rparr>"

definition sample_video :: "nat video" where
  "sample_video = \<lparr>total_frames = 12, video_fps = 30, frames = [0, 1, 2, 3, 4, 5, 6, 7, 8, 9, 10, 11]\<rparr>"

text \<open>Scenario 2 of the specification: one second at eight frames per second.\<close>

definition short_video :: "nat video" where
  "short_video = \<lparr>total_frames = 8, video_fps = 8, frames = [0, 1, 2, 3, 4, 5, 6, 7]\<rparr>"

definition sample_env :: "nat env" where
  "sample_env =
     \<lparr>capture = sample_video, mkdir_error = None, colmap = sample_proc, train = sample_proc,
      train_polls = 3, checkpoints = [''step-000009999.ckpt''], export = sample_proc,
      exported = [(''job-1_cloud.ply'', ''ply bytes'')], move_error = None,
      unlink_error = None\<rparr>"

definition sample_colmap_env :: "nat colmap_env" where
  "sample_colmap_env =
     \<lparr>colmap_capture = sample_video, colmap_mkdir_error = None,
      feature_extractor = sample_proc, exhaustive_matcher = sample_proc, mapper = sample_proc,
      model_generated = True, model_converter = sample_proc, converted = Some ''ply bytes'',
      colmap_unlink_error = None\<rparr>"

definition sample_upload :: upload where
  "sample_upload = \<lparr>content_type = Some ''video/mp4'', content = ''mp4 bytes''\<rparr>"

definition sample_world :: world where
  "sample_world = snd (generate_3d sample_upload ''job-1'' ''2025-01-01T00:00:00'' empty_world)"

section \<open>The frame samplers\<close>

subsection \<open>Multiples of the stride\<close>














subsection \<open>Sampling by frame rate\<close>

lemma fps_loop_every_frame:
  "fps_loop 1 fs c s out = Inr (s + length fs, out @ enumerate s fs)"
  by (induction fs arbitrary: c s out) simp_all

lemma py_int_below_one: "- 3 < x \<Longrightarrow> x < 3 \<Longrightarrow> py_int (x / of_int 3) = 0"
  by (simp add: py_int_def floor_eq_iff ceiling_eq_iff)

text \<open>
  Claim C10.  For a video that delivers at least one frame and reports a frame rate below
  the target rate \<open>3\<close> (and above \<open>- 3\<close>, as every frame rate is), the sampler of
  \<open>main_gaussian_splatting.py\<close> computes the interval \<open>int(video_fps / fps) = 0\<close> and
  raises \<open>ZeroDivisionError\<close> at the first frame; the sampler of \<open>main_colmap.py\<close>, which
  takes \<open>max(1, ...)\<close>, keeps every frame.
\<close>

theorem gaussian_sampler_modulo_by_zero:
  assumes "frames v \<noteq> []" and "- 3 < video_fps v" and "video_fps v < 3"
  shows "py_int (video_fps v / of_int 3) = 0
       \<and> extract_frames_from_video_gaussian_splatting v 3 = Inl ZeroDivisionError
       \<and> extract_frames_from_video_colmap v 3 = Inr (length (frames v), enumerate 0 (frames v))"
proof -
  have z: "py_int (video_fps v / of_int 3) = 0"
    using assms(2,3) by (rule py_int_below_one)
  obtain f rest where fs: "frames v = f # rest"
    using assms(1) by (cases "frames v") auto
  have g: "extract_frames_from_video_gaussian_splatting v 3 = Inl ZeroDivisionError"
    unfolding extract_frames_from_video_gaussian_splatting_def using z fs by simp
  have c: "extract_frames_from_video_colmap v 3 = Inr (length (frames v), enumerate 0 (frames v))"
    unfolding extract_frames_from_video_colmap_def
    using z fps_loop_every_frame[of "frames v" 0 0 "[]"] by simp
  from z g c show ?thesis by simp
qed

theorem gaussian_sampler_modulo_by_zero_witness:
  "frames \<lparr>total_frames = 4, video_fps = 2, frames = ''abcd''\<rparr> \<noteq> []
   \<and> extract_frames_from_video_gaussian_splatting
         \<lparr>total_frames = 4, video_fps = 2, frames = ''abcd''\<rparr> 3
       = Inl ZeroDivisionError
   \<and> extract_frames_from_video_colmap \<lparr>total_frames = 4, video_fps = 2, frames = ''abcd''\<rparr> 3
       = Inr (4, [(0, CHR ''a''), (1, CHR ''b''), (2, CHR ''c''), (3, CHR ''d'')])"
  using gaussian_sampler_modulo_by_zero
          [of "\<lparr>total_frames = 4, video_fps = 2, frames = ''abcd''\<rparr>"]
  by (simp add: enumerate_eq_zip)

section \<open>The pipeline of \<open>main.py\<close>\<close>

subsection \<open>What each stage stores\<close>

lemma ramp_bounds: "x \<in> set (ramp p n) \<Longrightarrow> x \<le> 85 \<and> (p \<le> 85 \<longrightarrow> p \<le> x)"
proof (induction n arbitrary: p)
  case 0 then show ?case by simp
next
  case (Suc n)
  from Suc.prems have "x = min (p + 5) 85 \<or> x \<in> set (ramp (min (p + 5) 85) n)" by simp
  then show ?case
  proof
    assume "x = min (p + 5) 85" then show ?thesis by auto
  next
    assume "x \<in> set (ramp (min (p + 5) 85) n)"
    from Suc.IH[OF this] show ?thesis by auto
  qed
qed

lemma ramp_sorted: "p \<le> 85 \<Longrightarrow> sorted (ramp p n)"
proof (induction n arbitrary: p)
  case 0 show ?case by simp
next
  case (Suc n)
  have "\<forall>x\<in>set (ramp (min (p + 5) 85) n). min (p + 5) 85 \<le> x"
    using ramp_bounds[of _ "min (p + 5) 85" n] by auto
  then show ?case using Suc by simp
qed

lemma ramp_closed: "p \<le> 85 \<Longrightarrow> ramp p n = map (\<lambda>k. min (p + 5 * (int k + 1)) 85) [0..<n]"
proof (induction n arbitrary: p)
  case 0 show ?case by simp
next
  case (Suc n)
  have "map (\<lambda>k. min (p + 5 * (int k + 1)) 85) [0..<Suc n]
      = min (p + 5) 85 # map (\<lambda>k. min (p + 5 * (int (Suc k) + 1)) 85) [0..<n]"
    unfolding upt_conv_Cons[OF zero_less_Suc] map_Suc_upt[symmetric] by (simp add: comp_def)
  moreover have "map (\<lambda>k. min (min (p + 5) 85 + 5 * (int k + 1)) 85) [0..<n]
       = map (\<lambda>k. min (p + 5 * (int (Suc k) + 1)) 85) [0..<n]"
    using Suc.prems by (intro map_cong refl) (auto simp: min_def)
  ultimately show ?case using Suc.IH[of "min (p + 5) 85"] by simp
qed

lemma store_run:
  "jobs_status w jid = Some j \<Longrightarrow>
   store jid upd w = Normal (w\<lparr>jobs_status := (jobs_status w)(jid \<mapsto> upd j),
                               history := history w @ [upd j]\<rparr>)"
  by (simp add: store_def)

lemma training_loop_run:
  "jobs_status w jid = Some j \<Longrightarrow>
   training_loop n p jid w =
     Normal (w\<lparr>jobs_status := (jobs_status w)(jid \<mapsto> j\<lparr>progress := ramp_end p n (progress j)\<rparr>),
              history := history w @ map (\<lambda>q. j\<lparr>progress := q\<rparr>) (ramp p n)\<rparr>)"
proof (induction n arbitrary: p w j)
  case 0
  then show ?case by (simp add: map_upd_triv)
next
  case (Suc n)
  let ?j = "j\<lparr>progress := min (p + 5) 85\<rparr>"
  let ?w = "w\<lparr>jobs_status := (jobs_status w)(jid \<mapsto> ?j), history := history w @ [?j]\<rparr>"
  have s: "store jid (\<lambda>j. j\<lparr>progress := min (p + 5) 85\<rparr>) w = Normal ?w"
    using Suc.prems by (rule store_run)
  have "jobs_status ?w jid = Some ?j" by simp
  from Suc.IH[OF this, of "min (p + 5) 85"]
  show ?case by (simp add: s fun_upd_def cong: if_cong)
qed


lemmas stmt_defs = store_def raise_if_def mkdirs_def launch_def check_returncode_def check_frames_def
  resolve_artifact_def cleanup_def
lemmas stage_defs = process_start_def colmap_done_def training_done_def export_done_def
  process_rest_def process_3d_generation_def on_exception_def

lemma sorted_ramp_snaps:
  "p \<le> 85 \<Longrightarrow> sorted (map progress (map (\<lambda>q. (j::job)\<lparr>progress := q\<rparr>) (ramp p n)))"
  by (simp add: comp_def ramp_sorted)



lemma process_start_trace:
  assumes "jobs_status w jid = Some j" and "progress j \<le> 10"
  shows "\<exists>js. history (world_of (process_start env jid w)) = history w @ js \<and> js \<noteq> []
           \<and> (\<forall>s\<in>set js. status s = Processing \<and> progress s \<le> 20)
           \<and> sorted (map progress js)
           \<and> (\<forall>w'. process_start env jid w = Normal w' \<longrightarrow>
                  (\<exists>j'. jobs_status w' jid = Some j' \<and> status j' = Processing \<and> progress j' = 20))
           \<and> jobs_status (world_of (process_start env jid w)) jid \<noteq> None"
  using assms
  by (auto simp: process_start_def stmt_defs split: option.splits sum.splits)

lemma colmap_done_trace:
  assumes "jobs_status w jid = Some j" and "status j = Processing"
  shows "\<exists>js. history (world_of (colmap_done env jid w)) = history w @ js
           \<and> (\<forall>s\<in>set js. status s = Processing \<and> progress s = 40)
           \<and> (\<forall>w'. colmap_done env jid w = Normal w' \<longrightarrow>
                  (\<exists>j'. jobs_status w' jid = Some j' \<and> status j' = Processing \<and> progress j' = 40))
           \<and> jobs_status (world_of (colmap_done env jid w)) jid \<noteq> None"
  using assms
  by (auto simp: colmap_done_def stmt_defs split: option.splits sum.splits)

lemma training_loop_trace:
  assumes "jobs_status w jid = Some j" and "status j = Processing" and "progress j = 40"
  shows "\<exists>js. history (world_of (training_loop n 40 jid w)) = history w @ js
           \<and> (\<forall>s\<in>set js. status s = Processing \<and> 40 \<le> progress s \<and> progress s \<le> 85)
           \<and> sorted (map progress js)
           \<and> (\<exists>w' j'. training_loop n 40 jid w = Normal w' \<and> jobs_status w' jid = Some j'
                  \<and> status j' = Processing)"
  using assms ramp_bounds[of _ 40 n]
  by (auto simp: training_loop_run[OF assms(1)] comp_def ramp_sorted)

lemma training_done_trace:
  assumes "jobs_status w jid = Some j" and "status j = Processing"
  shows "\<exists>js. history (world_of (training_done env jid w)) = history w @ js
           \<and> (\<forall>s\<in>set js. status s = Processing \<and> progress s = 90)
           \<and> (\<forall>w'. training_done env jid w = Normal w' \<longrightarrow>
                  (\<exists>j'. jobs_status w' jid = Some j' \<and> status j' = Processing \<and> progress j' = 90))
           \<and> jobs_status (world_of (training_done env jid w)) jid \<noteq> None"
  using assms
  by (auto simp: training_done_def stmt_defs split: option.splits sum.splits)

lemma export_done_trace:
  assumes "jobs_status w jid = Some j"
  shows "\<exists>js. history (world_of (export_done env jid w)) = history w @ js
           \<and> (\<forall>s\<in>set js. status s = Completed)
           \<and> jobs_status (world_of (export_done env jid w)) jid \<noteq> None
           \<and> (unlink_error env = None \<longrightarrow>
                (\<forall>e w'. export_done env jid w = Raised e w' \<longrightarrow> js = []))"
  using assms
  by (auto simp: export_done_def stmt_defs Let_def split: option.splits sum.splits list.splits)

lemma on_exception_trace:
  assumes "jobs_status w jid = Some j"
  shows "\<exists>js. history (world_of (on_exception jid (Raised e w))) = history w @ js
           \<and> (\<forall>s\<in>set js. status s = Failed)"
  using assms
  by (auto simp: on_exception_def stmt_defs)


lemma sorted_const: "\<forall>s\<in>set js. f s = (c::int) \<Longrightarrow> sorted (map f js)"
  by (induction js) auto

lemma run_steps_single: "run_steps [f] w = f w"
  by (cases "f w") simp_all

lemma process_rest_trace:
  assumes "jobs_status w jid = Some j" and "status j = Processing"
  shows "\<exists>js cs. history (world_of (process_rest env jid w)) = history w @ js @ cs
           \<and> (\<forall>s\<in>set js. status s = Processing \<and> 40 \<le> progress s)
           \<and> sorted (map progress js)
           \<and> (\<forall>s\<in>set cs. status s = Completed)
           \<and> jobs_status (world_of (process_rest env jid w)) jid \<noteq> None
           \<and> (unlink_error env = None \<longrightarrow>
                (\<forall>e w'. process_rest env jid w = Raised e w' \<longrightarrow> cs = []))"
proof -
  obtain js2 where c:
    "history (world_of (colmap_done env jid w)) = history w @ js2"
    "\<forall>s\<in>set js2. status s = Processing \<and> progress s = 40"
    "\<forall>w'. colmap_done env jid w = Normal w' \<longrightarrow>
        (\<exists>j'. jobs_status w' jid = Some j' \<and> status j' = Processing \<and> progress j' = 40)"
    "jobs_status (world_of (colmap_done env jid w)) jid \<noteq> None"
    using colmap_done_trace[OF assms, of env] by blast
  have s2: "sorted (map progress js2)" using c(2) by (intro sorted_const[of _ _ 40]) simp
  show ?thesis
  proof (cases "colmap_done env jid w")
    case (Raised e w1)
    then have "process_rest env jid w = Raised e w1" by (simp add: process_rest_def)
    with c Raised s2 show ?thesis by (intro exI[of _ js2] exI[of _ "[]"]) auto
  next
    case (Normal w1)
    with c(3) obtain j1 where j1: "jobs_status w1 jid = Some j1" "status j1 = Processing" "progress j1 = 40"
      by blast
    from training_loop_trace[OF j1, of "train_polls env"]
    obtain js3 w2 j2 where t:
      "history (world_of (training_loop (train_polls env) 40 jid w1)) = history w1 @ js3"
      "\<forall>s\<in>set js3. status s = Processing \<and> 40 \<le> progress s \<and> progress s \<le> 85"
      "sorted (map progress js3)"
      "training_loop (train_polls env) 40 jid w1 = Normal w2" "jobs_status w2 jid = Some j2"
      "status j2 = Processing"
      by blast
    from training_done_trace[OF t(5,6), of env]
    obtain js4 where d:
      "history (world_of (training_done env jid w2)) = history w2 @ js4"
      "\<forall>s\<in>set js4. status s = Processing \<and> progress s = 90"
      "\<forall>w'. training_done env jid w2 = Normal w' \<longrightarrow>
        (\<exists>j'. jobs_status w' jid = Some j' \<and> status j' = Processing \<and> progress j' = 90)"
      "jobs_status (world_of (training_done env jid w2)) jid \<noteq> None"
      by blast
    have s4: "sorted (map progress js4)" using d(2) by (intro sorted_const[of _ _ 90]) simp
    have h2: "history w2 = history w @ js2 @ js3" using c(1) t(1,4) Normal by simp
    have srt: "sorted (map progress (js2 @ js3 @ js4))"
      using s2 s4 t(2,3) c(2) d(2) by (fastforce simp: sorted_append)
    have prc: "\<forall>s\<in>set (js2 @ js3 @ js4). status s = Processing \<and> 40 \<le> progress s"
      using c(2) t(2) d(2) by auto
    show ?thesis
    proof (cases "training_done env jid w2")
      case (Raised e w3)
      then have "process_rest env jid w = Raised e w3"
        using Normal t(4) by (simp add: process_rest_def)
      with d Raised h2 srt prc show ?thesis
        by (intro exI[of _ "js2 @ js3 @ js4"] exI[of _ "[]"]) auto
    next
      case (Normal w3)
      with d(3) obtain j3 where j3: "jobs_status w3 jid = Some j3" by blast
      from export_done_trace[OF j3, of env]
      obtain cs where x:
        "history (world_of (export_done env jid w3)) = history w3 @ cs"
        "\<forall>s\<in>set cs. status s = Completed"
        "jobs_status (world_of (export_done env jid w3)) jid \<noteq> None"
        "unlink_error env = None \<longrightarrow>
           (\<forall>e w'. export_done env jid w3 = Raised e w' \<longrightarrow> cs = [])"
        by (elim exE conjE) (rule that; assumption)
      have "process_rest env jid w = export_done env jid w3"
        using \<open>colmap_done env jid w = Normal w1\<close> t(4) Normal
          run_steps_single[of "export_done env jid" w3]
        by (simp add: process_rest_def)
      with x d(1) Normal h2 srt prc show ?thesis
        by (intro exI[of _ "js2 @ js3 @ js4"] exI[of _ cs]) auto
    qed
  qed
qed


lemma process_3d_generation_trace:
  assumes "jobs_status w jid = Some j" and "progress j \<le> 10"
  shows "\<exists>ps cs fs. written w (process_3d_generation env jid w) = ps @ cs @ fs
           \<and> (\<forall>s\<in>set ps. status s = Processing) \<and> sorted (map progress ps)
           \<and> (\<forall>s\<in>set cs. status s = Completed)
           \<and> (\<forall>s\<in>set fs. status s = Failed)
           \<and> ps \<noteq> [] \<and> (unlink_error env = None \<longrightarrow> cs = [] \<or> fs = [])"
proof -
  obtain js1 where a:
    "history (world_of (process_start env jid w)) = history w @ js1"
    "\<forall>s\<in>set js1. status s = Processing \<and> progress s \<le> 20"
    "sorted (map progress js1)" "js1 \<noteq> []"
    "\<forall>w'. process_start env jid w = Normal w' \<longrightarrow>
        (\<exists>j'. jobs_status w' jid = Some j' \<and> status j' = Processing \<and> progress j' = 20)"
    "jobs_status (world_of (process_start env jid w)) jid \<noteq> None"
    using process_start_trace[OF assms, of env] by blast
  show ?thesis
  proof (cases "process_start env jid w")
    case (Raised e w1)
    with a(6) obtain j1 where "jobs_status w1 jid = Some j1" by auto
    from on_exception_trace[OF this, of e]
    obtain fs where f: "history (world_of (on_exception jid (Raised e w1))) = history w1 @ fs"
      "\<forall>s\<in>set fs. status s = Failed" by blast
    have "process_3d_generation env jid w = on_exception jid (Raised e w1)"
      using Raised by (simp add: process_3d_generation_def)
    then have "written w (process_3d_generation env jid w) = js1 @ [] @ fs"
      using f(1) a(1) Raised by (simp add: written_def)
    with a(2,3) f(2) \<open>js1 \<noteq> []\<close> show ?thesis
      by (intro exI[of _ js1] exI[of _ "[]"] exI[of _ fs]) simp
  next
    case (Normal w1)
    with a(5) obtain j1 where j1: "jobs_status w1 jid = Some j1" "status j1 = Processing" by blast
    from process_rest_trace[OF j1, of env]
    obtain js cs where r:
      "history (world_of (process_rest env jid w1)) = history w1 @ js @ cs"
      "\<forall>s\<in>set js. status s = Processing \<and> 40 \<le> progress s"
      "sorted (map progress js)"
      "\<forall>s\<in>set cs. status s = Completed"
      "jobs_status (world_of (process_rest env jid w1)) jid \<noteq> None"
      "unlink_error env = None \<longrightarrow>
         (\<forall>e w'. process_rest env jid w1 = Raised e w' \<longrightarrow> cs = [])"
      by (elim exE conjE) (rule that; assumption)
    have body: "run_steps [process_start env jid, process_rest env jid] w = process_rest env jid w1"
      using Normal run_steps_single[of "process_rest env jid" w1] by simp
    have srt: "sorted (map progress (js1 @ js))"
      using a(2,3) r(2,3) by (fastforce simp: sorted_append)
    have prc: "\<forall>s\<in>set (js1 @ js). status s = Processing" using a(2) r(2) by auto
    have h1: "history w1 = history w @ js1" using a(1) Normal by simp
    show ?thesis
    proof (cases "process_rest env jid w1")
      case (Normal w2)
      then have "process_3d_generation env jid w = Normal w2"
        using body by (simp add: process_3d_generation_def on_exception_def)
      then have "written w (process_3d_generation env jid w) = (js1 @ js) @ cs @ []"
        using r(1) h1 Normal by (simp add: written_def)
      with srt prc r(4) \<open>js1 \<noteq> []\<close> show ?thesis
        by (intro exI[of _ "js1 @ js"] exI[of _ cs] exI[of _ "[]"]) simp
    next
      case (Raised e w2)
      with r(5) obtain j2 where "jobs_status w2 jid = Some j2" by auto
      from on_exception_trace[OF this, of e]
      obtain fs where f: "history (world_of (on_exception jid (Raised e w2))) = history w2 @ fs"
        "\<forall>s\<in>set fs. status s = Failed" by blast
      have "process_3d_generation env jid w = on_exception jid (Raised e w2)"
        using body Raised by (simp add: process_3d_generation_def)
      then have "written w (process_3d_generation env jid w) = (js1 @ js) @ cs @ fs"
        using r(1) h1 Raised f(1) by (simp add: written_def)
      moreover have "unlink_error env = None \<longrightarrow> cs = []" using r(6) Raised by blast
      ultimately show ?thesis using srt prc r(4) f(2) \<open>js1 \<noteq> []\<close>
        by (intro exI[of _ "js1 @ js"] exI[of _ cs] exI[of _ fs]) simp
    qed
  qed
qed

lemma filter_processing_decomp:
  assumes "\<forall>s\<in>set ps. status s = Processing" "\<forall>s\<in>set cs. status s = Completed"
    "\<forall>s\<in>set fs. status s = Failed"
  shows "filter (\<lambda>s. status s = Processing) (ps @ cs @ fs) = ps"
  using assms by (simp add: filter_id_conv filter_empty_conv)


text \<open>
  Unless the unlink of the upload raises, the statuses stored during a run go forward: a
  non-empty run of \<open>Processing\<close>, then only \<open>Completed\<close> or only \<open>Failed\<close>.
\<close>

lemma stored_statuses_forward_unless_unlink_raises:
  assumes "jobs_status w jid = Some j" and "progress j \<le> 10" and "unlink_error env = None"
  shows "\<exists>ps ts. written w (process_3d_generation env jid w) = ps @ ts \<and> ps \<noteq> []
           \<and> (\<forall>s\<in>set ps. status s = Processing)
           \<and> ((\<forall>s\<in>set ts. status s = Completed) \<or> (\<forall>s\<in>set ts. status s = Failed))"
proof -
  from process_3d_generation_trace[OF assms(1,2), of env] assms(3)
  obtain ps cs fs where d: "written w (process_3d_generation env jid w) = ps @ cs @ fs"
    "\<forall>s\<in>set ps. status s = Processing" "\<forall>s\<in>set cs. status s = Completed"
    "\<forall>s\<in>set fs. status s = Failed" "ps \<noteq> []" "cs = [] \<or> fs = []"
    by blast
  from d(6) show ?thesis
  proof
    assume "cs = []"
    with d show ?thesis by (intro exI[of _ ps] exI[of _ fs]) simp
  next
    assume "fs = []"
    with d show ?thesis by (intro exI[of _ ps] exI[of _ cs]) simp
  qed
qed

lemma sample_world_record:
  "jobs_status sample_world ''job-1''
     = Some (new_job ''job-1'' ''En attente de traitement...'' ''2025-01-01T00:00:00'')"
  by (simp add: sample_world_def generate_3d_def generate_3d_try_def sample_upload_def
        empty_world_def)

text \<open>
  Claim C3.  In a run of \<open>process_3d_generation\<close> on a record as \<open>generate_3d\<close> created it,
  the progress values the record shows while its status is \<open>Processing\<close> never decrease.
  The training loop, in \<open>n\<close> turns from \<open>40\<close>, stores \<open>45, 50, ...\<close> in steps of five capped
  at \<open>85\<close>, below the ceiling \<open>90\<close> of the training stage, and when the training has ended
  with return code \<open>0\<close> the next store sets the progress to \<open>90\<close>.
\<close>

theorem progress_rises_while_processing:
  assumes "jobs_status w jid = Some (new_job jid msg now)" and "jobs_status w' jid = Some j"
  shows "sorted (map progress (filter (\<lambda>s. status s = Processing)
                   (written w (process_3d_generation env jid w))))
       \<and> map progress (written w' (training_loop n 40 jid w'))
           = map (\<lambda>k. min (45 + 5 * int k) 85) [0..<n]
       \<and> (\<forall>s\<in>set (written w' (training_loop n 40 jid w')). 40 < progress s \<and> progress s \<le> 85)
       \<and> (returncode (train env) = 0 \<longrightarrow>
            map progress (take 1 (written w' (training_done env jid w'))) = [90])"
proof -
  have "progress (new_job jid msg now) \<le> 10" by (simp add: new_job_def)
  from process_3d_generation_trace[OF assms(1) this, of env]
  obtain ps cs fs where d: "written w (process_3d_generation env jid w) = ps @ cs @ fs"
    "\<forall>s\<in>set ps. status s = Processing" "sorted (map progress ps)"
    "\<forall>s\<in>set cs. status s = Completed" "\<forall>s\<in>set fs. status s = Failed"
    by blast
  have one: "sorted (map progress (filter (\<lambda>s. status s = Processing)
                   (written w (process_3d_generation env jid w))))"
    unfolding d(1) filter_processing_decomp[OF d(2,4,5)] by (rule d(3))
  have wr: "written w' (training_loop n 40 jid w') = map (\<lambda>q. j\<lparr>progress := q\<rparr>) (ramp 40 n)"
    by (simp add: written_def training_loop_run[OF assms(2)])
  have two: "map progress (written w' (training_loop n 40 jid w'))
           = map (\<lambda>k. min (45 + 5 * int k) 85) [0..<n]"
    by (simp add: wr comp_def ramp_closed algebra_simps)
  have three: "\<forall>s\<in>set (written w' (training_loop n 40 jid w')). 40 < progress s \<and> progress s \<le> 85"
  proof
    fix s assume "s \<in> set (written w' (training_loop n 40 jid w'))"
    then have "progress s \<in> set (map (\<lambda>k. min (45 + 5 * int k) 85) [0..<n])"
      unfolding two[symmetric] by simp
    then show "40 < progress s \<and> progress s \<le> 85" by auto
  qed
  have four: "returncode (train env) = 0 \<longrightarrow>
            map progress (take 1 (written w' (training_done env jid w'))) = [90]"
    using assms(2)
    by (auto simp: written_def training_done_def stmt_defs split: option.splits)
  from one two three four show ?thesis by simp
qed


theorem progress_rises_while_processing_witness:
  "jobs_status sample_world ''job-1''
     = Some (new_job ''job-1'' ''En attente de traitement...'' ''2025-01-01T00:00:00'')
   \<and> sorted (map progress (filter (\<lambda>s. status s = Processing)
                (written sample_world (process_3d_generation sample_env ''job-1'' sample_world))))
   \<and> map progress (written sample_world (training_loop 3 40 ''job-1'' sample_world)) = [45, 50, 55]
   \<and> returncode (train sample_env) = 0
   \<and> map progress (take 1 (written sample_world (training_done sample_env ''job-1'' sample_world)))
       = [90]"
  using progress_rises_while_processing
          [OF sample_world_record sample_world_record, of sample_env 3]
  by (simp add: sample_world_record sample_env_def sample_proc_def upt_conv_Cons)


subsection \<open>Too few frames\<close>

text \<open>
  Claim C4.  In a run that reaches the sampler (the record exists and the job directories
  were made) and in which the sampler keeps \<open>n < 10\<close> frames, the task ends with the record
  in status \<open>Failed\<close>, its error the too-few-frames message with the decimal digit of \<open>n\<close>
  in it, and no external command started.  This holds for \<open>process_3d_generation\<close> of \<open>main.py\<close> and for
  \<open>process_colmap\<close> of \<open>main_colmap.py\<close>.
\<close>

theorem too_few_frames_fail_before_any_command:
  assumes "jobs_status w jid = Some j"
    and "mkdir_error env = None" and "extract_frames_from_video (capture env) 50 = Inr (n, files)"
    and "n < 10"
    and "jobs_status w' jid' = Some j'"
    and "colmap_mkdir_error cenv = None"
    and "extract_frames_from_video_colmap (colmap_capture cenv) 3 = Inr (m, cfiles)" and "m < 10"
  shows "(\<exists>w1 j1. process_3d_generation env jid w = Normal w1 \<and> jobs_status w1 jid = Some j1
            \<and> status j1 = Failed
            \<and> error j1 = Some (''Pas assez de frames extraites ('' @ [char_of (48 + n)]
                                @ ''). Vid'' @ [CHR 0xE9] @ ''o trop courte?'')
            \<and> launched w1 = launched w)
       \<and> (\<exists>w2 j2. process_colmap cenv jid' w' = Normal w2 \<and> jobs_status w2 jid' = Some j2
            \<and> status j2 = Failed
            \<and> error j2 = Some (''Pas assez de frames: '' @ [char_of (48 + m)] @ ''. Vid''
                                @ [CHR 0xE9] @ ''o trop courte (minimum 5 secondes)'')
            \<and> launched w2 = launched w')"
  using assms
  by (simp add: process_3d_generation_def process_start_def on_exception_def stmt_defs
        num_frames_def process_colmap_def on_exception_colmap_def num_frames_colmap_def
        too_few_frames_def too_few_frames_colmap_def digit_char_def e_acute_def)

theorem too_few_frames_fail_before_any_command_witness:
  "extract_frames_from_video short_video 50 = Inr (8, map (\<lambda>k. (k, k)) [0, 1, 2, 3, 4, 5, 6, 7])
   \<and> (8::nat) < 10
   \<and> map_option status
        (jobs_status (world_of (process_3d_generation (sample_env\<lparr>capture := short_video\<rparr>)
                                  ''job-1'' sample_world)) ''job-1'') = Some Failed
   \<and> map_option error
        (jobs_status (world_of (process_3d_generation (sample_env\<lparr>capture := short_video\<rparr>)
                                  ''job-1'' sample_world)) ''job-1'')
       = Some (Some (''Pas assez de frames extraites (8). Vid'' @ [CHR 0xE9] @ ''o trop courte?''))
   \<and> launched (world_of (process_3d_generation (sample_env\<lparr>capture := short_video\<rparr>)
                                  ''job-1'' sample_world)) = []
   \<and> extract_frames_from_video_colmap short_video 3 = Inr (4, [(0, 0), (1, 2), (2, 4), (3, 6)])
   \<and> map_option error
        (jobs_status (world_of (process_colmap (sample_colmap_env\<lparr>colmap_capture := short_video\<rparr>)
                                  ''job-1'' sample_world)) ''job-1'')
       = Some (Some (''Pas assez de frames: 4. Vid'' @ [CHR 0xE9]
                     @ ''o trop courte (minimum 5 secondes)''))"
proof -
  have d8: "char_of (48 + (8::nat)) = CHR ''8''" by code_simp
  have d4: "char_of (48 + (4::nat)) = CHR ''4''" by code_simp
  have a: "extract_frames_from_video short_video 50 = Inr (8, map (\<lambda>k. (k, k)) [0, 1, 2, 3, 4, 5, 6, 7])"
    by (simp add: extract_frames_from_video_def short_video_def)
  have b: "extract_frames_from_video_colmap short_video 3 = Inr (4, [(0,0),(1,2),(2,4),(3,6)])"
    by code_simp
  have l: "launched sample_world = []"
    by (simp add: sample_world_def generate_3d_def generate_3d_try_def sample_upload_def
        empty_world_def)
  have m: "mkdir_error (sample_env\<lparr>capture := short_video\<rparr>) = None"
    by (simp add: sample_env_def)
  have a': "extract_frames_from_video (capture (sample_env\<lparr>capture := short_video\<rparr>)) 50
             = Inr (8, map (\<lambda>k. (k, k)) [0, 1, 2, 3, 4, 5, 6, 7])"
    using a by simp
  have cm: "colmap_mkdir_error (sample_colmap_env\<lparr>colmap_capture := short_video\<rparr>) = None"
    by (simp add: sample_colmap_env_def)
  have b': "extract_frames_from_video_colmap
               (colmap_capture (sample_colmap_env\<lparr>colmap_capture := short_video\<rparr>)) 3
             = Inr (4, [(0,0),(1,2),(2,4),(3,6)])"
    using b by simp
  from too_few_frames_fail_before_any_command
         [OF sample_world_record m a' _ sample_world_record cm b']
  obtain w1 j1 w2 j2 where "process_3d_generation (sample_env\<lparr>capture := short_video\<rparr>)
                         ''job-1'' sample_world = Normal w1"
    "jobs_status w1 ''job-1'' = Some j1" "status j1 = Failed" "launched w1 = launched sample_world"
    "error j1 = Some (''Pas assez de frames extraites ('' @ [char_of (48 + (8::nat))]
                                @ ''). Vid'' @ [CHR 0xE9] @ ''o trop courte?'')"
    "process_colmap (sample_colmap_env\<lparr>colmap_capture := short_video\<rparr>)
                         ''job-1'' sample_world = Normal w2"
    "jobs_status w2 ''job-1'' = Some j2"
    "error j2 = Some (''Pas assez de frames: '' @ [char_of (48 + (4::nat))] @ ''. Vid''
                                @ [CHR 0xE9] @ ''o trop courte (minimum 5 secondes)'')"
    by auto
  with a b l d8 d4 show ?thesis by simp
qed


subsection \<open>Runs on the sample submission\<close>

lemmas sample_defs = sample_world_def sample_env_def sample_proc_def sample_video_def
  sample_upload_def empty_world_def short_video_def sample_colmap_env_def
lemmas endpoint_defs = generate_3d_def generate_3d_try_def new_job_def video_path_def final_ply_def
  glob_ply_def move_file_def remove_file_def file_exists_def num_frames_def
  write_file_def write_files_def
  extract_frames_from_video_def written_def suffix_to_prefix

text \<open>
  Claim C2, at a run that breaks it.  Every tool succeeds and one candidate is found, so
  the record is stored as \<open>Completed\<close>; the unlink of the upload then raises inside the
  same \<open>try\<close> block, and the handler stores \<open>Failed\<close>.  The statuses stored, without
  repetitions, are \<open>Processing\<close>, \<open>Completed\<close>, \<open>Failed\<close>: a terminal status is left.
\<close>

theorem completed_then_failed:
  "remdups_adj (map status (written sample_world (process_3d_generation
       (sample_env\<lparr>unlink_error := Some ''[Errno 13] Permission denied''\<rparr>)
       ''job-1'' sample_world)))
     = [Processing, Completed, Failed]"
  by (simp add: stage_defs stmt_defs sample_defs endpoint_defs Let_def numeral_3_eq_3)

text \<open>
  Claim C5, at the same run.  When the task has ended, the record is \<open>Failed\<close> with its
  error set and its download locator still set.
\<close>

theorem failed_record_keeps_download_url:
  "map_option (\<lambda>j. (status j, download_url j, error j))
      (jobs_status (world_of (process_3d_generation
          (sample_env\<lparr>unlink_error := Some ''[Errno 13] Permission denied''\<rparr>)
          ''job-1'' sample_world)) ''job-1'')
     = Some (Failed, Some ''/download/job-1.ply'', Some ''[Errno 13] Permission denied'')"
  by (simp add: stage_defs stmt_defs sample_defs endpoint_defs Let_def numeral_3_eq_3)

subsection \<open>Resolving the artifact\<close>








section \<open>Admission\<close>

text \<open>
  Claim C6, as the code has it.  No admission bound is enforced: a scheduled task whose
  first stage succeeds moves its job to \<open>Processing\<close> whatever the other records are, so
  the set of jobs in \<open>Processing\<close> grows by that job; \<open>MAX_CONCURRENT_JOBS\<close> is not read.
\<close>

theorem start_is_never_held_back:
  assumes "tasks w jid = Some Scheduled" and "jobs_status w jid = Some j"
    and "mkdir_error (envs jid) = None"
    and "extract_frames_from_video (capture (envs jid)) 50 = Inr (n, files)" and "10 \<le> n"
    and "spawn_error (colmap (envs jid)) = None"
  shows "{other. is_processing (step envs (Start jid) w) other}
           = insert jid {other. is_processing w other}
       \<and> tasks (step envs (Start jid) w) jid = Some Suspended"
  using assms
  by (auto simp: process_start_def stmt_defs num_frames_def is_processing_def
        split: option.splits if_splits)

theorem start_is_never_held_back_witness:
  "is_processing (run_events (\<lambda>jid. sample_env)
        [Submit sample_upload ''job-a'' ''t1'', Start ''job-a''] empty_world) ''job-a''
   \<and> is_processing (step (\<lambda>jid. sample_env) (Start ''job-1'') sample_world) ''job-1''"
proof -
  have "tasks sample_world ''job-1'' = Some Scheduled"
    by (simp add: sample_defs endpoint_defs)
  moreover have "extract_frames_from_video (capture sample_env) 50
      = Inr (12, map (\<lambda>k. (k, k)) [0, 1, 2, 3, 4, 5, 6, 7, 8, 9, 10, 11])"
    by (simp add: sample_defs endpoint_defs)
  moreover have "mkdir_error sample_env = None" "spawn_error (colmap sample_env) = None"
    by (simp_all add: sample_defs)
  ultimately have "{other. is_processing (step (\<lambda>jid. sample_env) (Start ''job-1'') sample_world) other}
            = insert ''job-1'' {other. is_processing sample_world other}"
    using start_is_never_held_back[where envs = "\<lambda>jid. sample_env" and w = sample_world
        and jid = "''job-1''" and n = 12, OF _ sample_world_record]
    by simp
  then have "is_processing (step (\<lambda>jid. sample_env) (Start ''job-1'') sample_world) ''job-1''"
    by blast
  moreover have "run_events (\<lambda>jid. sample_env)
        [Submit sample_upload ''job-a'' ''t1'', Start ''job-a''] empty_world
      = step (\<lambda>jid. sample_env) (Start ''job-a'')
          (snd (generate_3d sample_upload ''job-a'' ''t1'' empty_world))"
    by simp
  moreover have "is_processing (step (\<lambda>jid. sample_env) (Start ''job-a'')
          (snd (generate_3d sample_upload ''job-a'' ''t1'' empty_world))) ''job-a''"
    by (simp add: is_processing_def process_start_def stmt_defs sample_defs endpoint_defs)
  ultimately show ?thesis by simp
qed

text \<open>
  Claim C6 as stated fails: three submissions and the start of their three tasks leave
  three jobs in \<open>Processing\<close>, with \<open>MAX_CONCURRENT_JOBS = 2\<close>.
\<close>

theorem three_jobs_processing_counterexample:
  "MAX_CONCURRENT_JOBS = 2
   \<and> map (is_processing
            (run_events (\<lambda>jid. sample_env)
               [Submit sample_upload ''job-a'' ''t1'', Submit sample_upload ''job-b'' ''t2'',
                Submit sample_upload ''job-c'' ''t3'',
                Start ''job-a'', Start ''job-b'', Start ''job-c''] empty_world))
         [''job-a'', ''job-b'', ''job-c'']
       = [True, True, True]"
  by (simp add: MAX_CONCURRENT_JOBS_def is_processing_def process_start_def stmt_defs
        sample_defs endpoint_defs)

section \<open>Submission and deletion\<close>

lemma generate_3d_rejects:
  assumes "\<forall>ct. content_type file = Some ct \<longrightarrow> \<not> prefix ''video/'' ct"
  shows "\<exists>detail. generate_3d file uuid4 now w = (Inl (HTTPException 500 detail), w)"
  using assms by (auto simp: generate_3d_def generate_3d_try_def split: option.splits)

text \<open>
  Claim C7, at an input that breaks it.  \<open>generate_3d\<close> of \<open>main_colmap.py\<close> given an
  upload of content type \<open>text/plain\<close> returns a job identifier, stores the upload and
  creates a \<open>Queued\<close> record; \<open>generate_3d\<close> of \<open>main.py\<close> rejects the same upload and
  creates no record.
\<close>

theorem colmap_accepts_any_upload:
  "fst (generate_3d_colmap \<lparr>content_type = Some ''text/plain'', content = ''not a video''\<rparr>
          ''job-2'' ''t'' empty_world) = Inr ''job-2''
   \<and> map_option status
        (jobs_status (snd (generate_3d_colmap
            \<lparr>content_type = Some ''text/plain'', content = ''not a video''\<rparr>
            ''job-2'' ''t'' empty_world)) ''job-2'') = Some Queued
   \<and> upload_dir (snd (generate_3d_colmap
            \<lparr>content_type = Some ''text/plain'', content = ''not a video''\<rparr>
            ''job-2'' ''t'' empty_world)) ''job-2.mp4'' = Some ''not a video''
   \<and> isl (fst (generate_3d \<lparr>content_type = Some ''text/plain'', content = ''not a video''\<rparr>
          ''job-2'' ''t'' empty_world))
   \<and> jobs_status (snd (generate_3d \<lparr>content_type = Some ''text/plain'', content = ''not a video''\<rparr>
          ''job-2'' ''t'' empty_world)) ''job-2'' = None"
  by (simp add: generate_3d_colmap_def sample_defs endpoint_defs)

text \<open>
  Claim C9, at an input that breaks it.  A job of \<open>main.py\<close> that failed for too few frames
  keeps its job directory; \<open>delete_job\<close> of \<open>main.py\<close> succeeds and removes the record but
  leaves the directory, which \<open>delete_job\<close> of \<open>main_colmap.py\<close> removes.
\<close>

theorem delete_job_leaves_the_job_directory:
  "map_option status
      (jobs_status (world_of (process_3d_generation (sample_env\<lparr>capture := short_video\<rparr>)
                                 ''job-1'' sample_world)) ''job-1'') = Some Failed
   \<and> fst (delete_job ''job-1''
            (world_of (process_3d_generation (sample_env\<lparr>capture := short_video\<rparr>)
                         ''job-1'' sample_world))) = Inr ()
   \<and> jobs_status (snd (delete_job ''job-1''
            (world_of (process_3d_generation (sample_env\<lparr>capture := short_video\<rparr>)
                         ''job-1'' sample_world)))) ''job-1'' = None
   \<and> ''job-1'' \<in> jobs_dir (snd (delete_job ''job-1''
            (world_of (process_3d_generation (sample_env\<lparr>capture := short_video\<rparr>)
                         ''job-1'' sample_world))))
   \<and> ''job-1'' \<notin> jobs_dir (snd (delete_job_colmap ''job-1''
            (world_of (process_3d_generation (sample_env\<lparr>capture := short_video\<rparr>)
                         ''job-1'' sample_world))))"
  by (simp add: delete_job_def delete_job_colmap_def stage_defs stmt_defs sample_defs endpoint_defs)

end
